theory Spec2Isabelle
  imports Complex_Main
begin

section \<open>Values shared by the components\<close>

text \<open>
  JavaScript numbers are modelled as exact rationals: the properties below depend on
  comparisons, sums and differences of the numbers a caller passes, not on rounding.
  \<open>undefined\<close> and \<open>null\<close> are \<open>None\<close> of an option type. A thrown exception is the
  \<open>Inl\<close> of a result.
\<close>

type_synonym number = rat

datatype error = Error string

section \<open>Library functions the components call\<close>

subsection \<open>d3-array: extent\<close>

text \<open>
  \<open>extent(values)\<close> walks the values once. The first value sets both ends; each later
  value lowers \<open>min\<close> or raises \<open>max\<close>. With no value both ends stay \<open>undefined\<close>.
\<close>

fun extent_step :: "number option \<times> number option \<Rightarrow> number \<Rightarrow> number option \<times> number option" where
  "extent_step (None, mx) v = (Some v, Some v)"
| "extent_step (Some mn, None) v = (Some (if mn > v then v else mn), Some v)"
| "extent_step (Some mn, Some mx) v =
     (Some (if mn > v then v else mn), Some (if mx < v then v else mx))"

definition extent :: "number list \<Rightarrow> number option \<times> number option" where
  "extent vs = foldl extent_step (None, None) vs"

subsection \<open>d3-scale: scaleOrdinal\<close>

text \<open>
  An ordinal scale holds a duplicate-free domain (the position of a value is its index)
  and a range. \<open>domain(_)\<close> replaces the domain, keeping the first occurrence of each
  value. Calling the scale on a value that is not in the domain appends it (the implicit
  domain) and then returns \<open>range[i % range.length]\<close>, which is \<open>undefined\<close> for an empty
  range. The call therefore returns the looked-up colour and the scale as it is afterwards.
\<close>

record ordinal =
  ord_domain :: "string list"
  ord_range :: "string list"

definition scaleOrdinal :: ordinal where
  "scaleOrdinal = \<lparr>ord_domain = [], ord_range = []\<rparr>"

definition ordinal_range :: "string list \<Rightarrow> ordinal \<Rightarrow> ordinal" where
  "ordinal_range r s = s\<lparr>ord_range := r\<rparr>"

fun push_new :: "string list \<Rightarrow> string \<Rightarrow> string list" where
  "push_new d v = (if v \<in> set d then d else d @ [v])"

definition ordinal_domain :: "string list \<Rightarrow> ordinal \<Rightarrow> ordinal" where
  "ordinal_domain vs s = s\<lparr>ord_domain := foldl push_new [] vs\<rparr>"

fun index_of :: "string \<Rightarrow> string list \<Rightarrow> nat option" where
  "index_of v [] = None"
| "index_of v (d # ds) =
     (if v = d then Some 0 else map_option Suc (index_of v ds))"

definition ordinal_call :: "ordinal \<Rightarrow> string \<Rightarrow> string option \<times> ordinal" where
  "ordinal_call s v =
     (let (i, s') = (case index_of v (ord_domain s) of
                       Some i \<Rightarrow> (i, s)
                     | None \<Rightarrow> (length (ord_domain s), s\<lparr>ord_domain := ord_domain s @ [v]\<rparr>))
      in (if ord_range s' = [] then None
          else Some (ord_range s' ! (i mod length (ord_range s'))), s'))"

text \<open>The default colour scheme of a plot: \<open>schemeSet1\<close> of d3-scale-chromatic.\<close>

definition schemeSet1 :: "string list" where
  "schemeSet1 = [''#e41a1c'', ''#377eb8'', ''#4daf4a'', ''#984ea3'', ''#ff7f00'',
                 ''#ffff33'', ''#a65628'', ''#f781bf'', ''#999999'']"

subsection \<open>d3-shape: line\<close>

text \<open>
  The line generator with the accessors \<open>d.x\<close> and \<open>d.y\<close> returns the path through the
  points in order, and \<open>null\<close> when there is no point. The path is kept as its list of
  points instead of the text of the \<open>d\<close> attribute.
\<close>

record point =
  point_x :: number
  point_y :: number

definition lineGenerator :: "point list \<Rightarrow> point list option" where
  "lineGenerator series = (if series = [] then None else Some series)"

section \<open>LineSeries.tsx\<close>

text \<open>\<open>Series\<close>: the two data arrays of a line series (\<open>data.x\<close> and \<open>data.y\<close>).\<close>

record Series =
  series_x :: "number list"
  series_y :: "number list"

text \<open>
  The part of the plot context that \<open>LineSeriesRender\<close> reads. A scale is \<open>null\<close> or a
  function from a data value to a pixel.
\<close>

record LineContext =
  xScale :: "(number \<Rightarrow> number) option"
  yScale :: "(number \<Rightarrow> number) option"
  colorScaler :: ordinal

text \<open>Style values: \<open>stroke\<close> is the result of the colour scale, \<open>strokeWidth\<close> is a number.\<close>

datatype css_value = CssString string | CssNumber number | CssUndefined

type_synonym css = "(string \<times> css_value) list"

text \<open>
  The object spread \<open>{...a, ...b}\<close>: the keys of \<open>a\<close> in order, each with the value \<open>b\<close>
  gives it when \<open>b\<close> has the key, followed by the keys only \<open>b\<close> has.
\<close>

definition spread :: "css \<Rightarrow> css \<Rightarrow> css" where
  "spread a b =
     map (\<lambda>(k, v). (k, case map_of b k of Some w \<Rightarrow> w | None \<Rightarrow> v)) a
     @ filter (\<lambda>(k, v). k \<notin> fst ` set a) b"

record LineSeriesRenderProps =
  data :: Series
  lineStyle :: "css option"
  label :: string

text \<open>The \<open>path\<close> element \<open>LineSeriesRender\<close> returns: its style and its \<open>d\<close> attribute.\<close>

record path_element =
  path_style :: css
  path_d :: "point list option"

text \<open>
  The memoised path of \<open>LineSeriesRender\<close>: \<open>null\<close> when a scale is \<open>null\<close> or the two
  arrays differ in length, otherwise the line through the scaled points, built index by
  index.
\<close>

definition LineSeriesRender_path :: "LineContext \<Rightarrow> Series \<Rightarrow> point list option" where
  "LineSeriesRender_path ctx d =
     (case (xScale ctx, yScale ctx) of
        (Some xS, Some yS) \<Rightarrow>
          if length (series_x d) \<noteq> length (series_y d) then None
          else lineGenerator
                 (map (\<lambda>index. \<lparr>point_x = xS (series_x d ! index),
                                point_y = yS (series_y d ! index)\<rparr>)
                      [0 ..< length (series_x d)])
      | _ \<Rightarrow> None)"

text \<open>
  \<open>LineSeriesRender\<close>: the result is an exception, or the rendered element (\<open>None\<close> for
  \<open>null\<close>, nothing rendered) together with the colour scale as the call leaves it.
\<close>

definition LineSeriesRender ::
  "LineContext \<Rightarrow> LineSeriesRenderProps \<Rightarrow> error + (path_element option \<times> ordinal)" where
  "LineSeriesRender ctx props =
     (let path = LineSeriesRender_path ctx (data props) in
      if xScale ctx = None \<or> yScale ctx = None then Inr (None, colorScaler ctx)
      else
        let (c, scaler') = ordinal_call (colorScaler ctx) (label props);
            style = spread [(''stroke'', case c of Some col \<Rightarrow> CssString col | None \<Rightarrow> CssUndefined),
                            (''strokeWidth'', CssNumber 2)]
                           (case lineStyle props of Some ls \<Rightarrow> ls | None \<Rightarrow> [])
        in Inr (Some \<lparr>path_style = style, path_d = path\<rparr>, scaler'))"

text \<open>
  The descriptor a series dispatches to the plot: its id, the extents of its data and its
  label. (\<open>series_id\<close> and \<open>series_label\<close> are the fields \<open>id\<close> and \<open>label\<close>.)
\<close>

record SeriesDescriptor =
  series_id :: string
  xMin :: "number option"
  xMax :: "number option"
  yMin :: "number option"
  yMax :: "number option"
  series_label :: string

datatype PlotReducerActions = NewData SeriesDescriptor | RemoveData string

record LineSeriesProps =
  props_data :: Series
  props_label :: string
  props_lineStyle :: "css option"

text \<open>
  The effect of \<open>LineSeries\<close>: it takes the extents of \<open>data.x\<close> and \<open>data.y\<close> and
  dispatches \<open>newData\<close> with the descriptor made of them; its cleanup dispatches
  \<open>removeData\<close>. \<open>sid\<close> is the id the component drew at its first render
  (\<open>series-${getNextId()}\<close>, kept in its state). The result is the action of the effect
  and the action of its cleanup.
\<close>

definition LineSeries_descriptor :: "string \<Rightarrow> LineSeriesProps \<Rightarrow> SeriesDescriptor" where
  "LineSeries_descriptor sid props =
     (let (x_min, x_max) = extent (series_x (props_data props));
          (y_min, y_max) = extent (series_y (props_data props))
      in \<lparr>series_id = sid, xMin = x_min, xMax = x_max, yMin = y_min, yMax = y_max,
          series_label = props_label props\<rparr>)"

definition LineSeries_effect :: "string \<Rightarrow> LineSeriesProps \<Rightarrow> PlotReducerActions \<times> PlotReducerActions" where
  "LineSeries_effect sid props = (NewData (LineSeries_descriptor sid props), RemoveData sid)"

text \<open>
  What \<open>LineSeries\<close> renders: \<open>LineSeriesRender\<close> with the data, the label and the other
  props.
\<close>

definition LineSeries :: "LineContext \<Rightarrow> LineSeriesProps \<Rightarrow> error + (path_element option \<times> ordinal)" where
  "LineSeries ctx props =
     LineSeriesRender ctx \<lparr>data = props_data props, lineStyle = props_lineStyle props,
                            label = props_label props\<rparr>"

section \<open>The plot state and its reducer\<close>

text \<open>
  \<open>PlotState\<close> as \<open>initialState\<close> of the plot lists its fields. The type of an axis
  entry is not needed here and stays a parameter.
\<close>

record 'ax PlotState =
  headingPosition :: "string option"
  legendPosition :: "string option"
  legendMargin :: number
  series :: "SeriesDescriptor list"
  axes :: "(string \<times> 'ax) list"

definition initialState :: "'ax PlotState" where
  "initialState = \<lparr>headingPosition = None, legendPosition = None, legendMargin = 0,
                    series = [], axes = []\<rparr>"

text \<open>
  Modelled from the spec: \<open>plotReducer\<close> of \<open>contexts/plotContext\<close> is not among the
  sources. Following section 4.1 of the specification, \<open>newData\<close> upserts by id (an id
  already present has its descriptor replaced in place, a new id is appended) and
  \<open>removeData\<close> deletes by id, doing nothing when the id is absent.
\<close>

fun upsert :: "SeriesDescriptor \<Rightarrow> SeriesDescriptor list \<Rightarrow> SeriesDescriptor list" where
  "upsert d [] = [d]"
| "upsert d (s # ss) = (if series_id s = series_id d then d # ss else s # upsert d ss)"

fun plotReducer :: "'ax PlotState \<Rightarrow> PlotReducerActions \<Rightarrow> 'ax PlotState" where
  "plotReducer st (NewData d) = st\<lparr>series := upsert d (series st)\<rparr>"
| "plotReducer st (RemoveData i) = st\<lparr>series := filter (\<lambda>s. series_id s \<noteq> i) (series st)\<rparr>"

text \<open>
  The life cycle of the effect of \<open>LineSeries\<close>, as React runs it with the dependencies
  \<open>[data, label, dispatch, id]\<close>: the effect runs at mount; when a dependency has changed
  the cleanup of the previous run is called and the effect runs again with the new props;
  at unmount the cleanup of the last run is called.
\<close>

definition LineSeries_mount :: "string \<Rightarrow> LineSeriesProps \<Rightarrow> 'ax PlotState \<Rightarrow> 'ax PlotState" where
  "LineSeries_mount sid props st = plotReducer st (fst (LineSeries_effect sid props))"

definition LineSeries_unmount :: "string \<Rightarrow> LineSeriesProps \<Rightarrow> 'ax PlotState \<Rightarrow> 'ax PlotState" where
  "LineSeries_unmount sid props st = plotReducer st (snd (LineSeries_effect sid props))"

definition LineSeries_update ::
  "string \<Rightarrow> LineSeriesProps \<Rightarrow> LineSeriesProps \<Rightarrow> 'ax PlotState \<Rightarrow> 'ax PlotState" where
  "LineSeries_update sid old new st = LineSeries_mount sid new (LineSeries_unmount sid old st)"

section \<open>XAxis.tsx\<close>

text \<open>
  Margins are partial: each side may be missing. \<open>m?.side || 0\<close> reads a side of a
  margin that may itself be missing, with 0 for a missing (or zero) value.
\<close>

record Margins =
  margin_top :: "number option"
  margin_right :: "number option"
  margin_bottom :: "number option"
  margin_left :: "number option"

definition side_or_0 :: "Margins option \<Rightarrow> (Margins \<Rightarrow> number option) \<Rightarrow> number" where
  "side_or_0 m side = (case m of None \<Rightarrow> 0 | Some mg \<Rightarrow> (case side mg of None \<Rightarrow> 0 | Some v \<Rightarrow> v))"

record AxisProps =
  axis_label :: "string option"
  fontSize :: "number option"
  showGridLines :: "bool option"

record AxisContext =
  axis_xScale :: "(number \<Rightarrow> number) option"
  axis_margin :: "Margins option"
  axis_height :: number
  axis_width :: number

text \<open>
  \<open>console.warn\<close> of the axis: the fixed text \<open>Your margin left should be at least\<close>
  followed by a number.
\<close>

datatype console_message = Warn_margin_left number

text \<open>The two elements an axis returns: the group the ticks are drawn into, and the label.\<close>

datatype axis_element =
    Axis_group number number
  | Axis_text number number number string

text \<open>
  What the layout effect asks d3 to draw into the group, when there is a scale: the inner
  tick size (set only with grid lines), the opacity and the dash pattern of the tick
  lines, and the vertical shift of the tick texts.
\<close>

record axis_drawing =
  tickSizeInner :: "number option"
  stroke_opacity :: number
  stroke_dasharray :: string
  tick_text_shift :: number

record XAxis_result =
  console :: "console_message list"
  rendered :: "axis_element list"
  layout_effect :: "axis_drawing option"

definition XAxis :: "AxisContext \<Rightarrow> AxisProps \<Rightarrow> XAxis_result" where
  "XAxis ctx props =
     (let fs = (case fontSize props of None \<Rightarrow> 16 | Some f \<Rightarrow> f);
          grid = (showGridLines props = Some True);
          margin = axis_margin ctx;
          height = axis_height ctx;
          width = axis_width ctx
      in \<lparr>console =
            (if side_or_0 margin margin_left < fs + 20 then [Warn_margin_left (fs + 20)] else []),
          rendered =
            Axis_group 0 (height - side_or_0 margin margin_bottom)
            # (case axis_label props of
                 None \<Rightarrow> []
               | Some l \<Rightarrow>
                   if l = [] then []
                   else [Axis_text (width / 2) (height - side_or_0 margin margin_bottom + 20 + fs)
                           fs l]),
          layout_effect =
            (case axis_xScale ctx of
               None \<Rightarrow> None
             | Some _ \<Rightarrow>
                 Some \<lparr>tickSizeInner =
                         (if grid
                          then Some (side_or_0 margin margin_bottom + side_or_0 margin margin_top - height)
                          else None),
                       stroke_opacity = (if grid then 1 / 2 else 1),
                       stroke_dasharray = (if grid then ''2,2'' else ''0''),
                       tick_text_shift = (if grid then 6 else 0)\<rparr>)\<rparr>)"

section \<open>Annotations: Arrow.tsx and Ellipse.tsx\<close>

text \<open>\<open>ScalarValue\<close>: a coordinate of an annotation is a number or a string.\<close>

datatype ScalarValue = Num number | Str string

text \<open>
  Modelled from the spec: the hooks \<open>usePosition\<close> and \<open>useEllipsePosition\<close> of \<open>hooks\<close>
  are not among the sources; section 4.5 of the specification describes them. Its numeric
  strings are read here as an optional minus sign, digits, and an optional fraction after
  a dot.
\<close>

definition is_digit :: "char \<Rightarrow> bool" where
  "is_digit c = (48 \<le> (of_char c :: nat) \<and> (of_char c :: nat) \<le> 57)"

definition digits_value :: "string \<Rightarrow> nat" where
  "digits_value s = foldl (\<lambda>n c. 10 * n + ((of_char c :: nat) - 48)) 0 s"

definition parse_unsigned :: "string \<Rightarrow> number option" where
  "parse_unsigned s =
     (let whole = takeWhile (\<lambda>c. c \<noteq> CHR ''.'') s;
          rest = dropWhile (\<lambda>c. c \<noteq> CHR ''.'') s
      in if whole = [] \<or> \<not> list_all is_digit whole then None
         else if rest = [] then Some (of_nat (digits_value whole))
         else if tl rest = [] \<or> \<not> list_all is_digit (tl rest) then None
         else Some (of_nat (digits_value whole)
                    + of_nat (digits_value (tl rest)) / 10 ^ length (tl rest)))"

definition parse_number :: "string \<Rightarrow> number option" where
  "parse_number s =
     (case s of
        [] \<Rightarrow> None
      | c # cs \<Rightarrow> if c = CHR ''-'' then map_option uminus (parse_unsigned cs)
                  else parse_unsigned s)"

text \<open>The coordinate context an annotation reads: the scales and the size of the plot area.\<close>

record PositionContext =
  pos_xScale :: "(number \<Rightarrow> number) option"
  pos_yScale :: "(number \<Rightarrow> number) option"
  pos_plotWidth :: number
  pos_plotHeight :: number

text \<open>
  Modelled from the spec: the resolution of one coordinate by the hooks \<open>usePosition\<close> and
  \<open>useEllipsePosition\<close>. Following section 4.5 of the specification, a bare number is
  already a pixel; a numeric string ending in \<open>%\<close> is that percentage of the plot-area
  dimension of its direction; any other numeric string is a data value, sent through the
  scale of its direction when there is one and read as a pixel otherwise. A string that
  is neither is an error.
\<close>

definition resolve_coordinate ::
  "ScalarValue \<Rightarrow> number \<Rightarrow> (number \<Rightarrow> number) option \<Rightarrow> error + number" where
  "resolve_coordinate v dimension scale =
     (case v of
        Num n \<Rightarrow> Inr n
      | Str s \<Rightarrow>
          if s \<noteq> [] \<and> last s = CHR ''%'' then
            (case parse_number (butlast s) of
               Some p \<Rightarrow> Inr (p / 100 * dimension)
             | None \<Rightarrow> Inl (Error ''invalid coordinate''))
          else
            (case parse_number s of
               Some n \<Rightarrow> (case scale of Some f \<Rightarrow> Inr (f n) | None \<Rightarrow> Inr n)
             | None \<Rightarrow> Inl (Error ''invalid coordinate'')))"

text \<open>
  Modelled from the spec: \<open>usePosition\<close> resolves \<open>x\<close> against the plot width and the x
  scale and \<open>y\<close> against the plot height and the y scale; \<open>useEllipsePosition\<close> does the
  same for the centre and the radii of an ellipse.
\<close>

record PositionArgs =
  arg_x :: ScalarValue
  arg_y :: ScalarValue
  arg_height :: ScalarValue
  arg_width :: ScalarValue

definition usePosition :: "PositionContext \<Rightarrow> PositionArgs \<Rightarrow> error + (number \<times> number)" where
  "usePosition ctx a =
     (case resolve_coordinate (arg_x a) (pos_plotWidth ctx) (pos_xScale ctx) of
        Inl e \<Rightarrow> Inl e
      | Inr px \<Rightarrow>
          (case resolve_coordinate (arg_y a) (pos_plotHeight ctx) (pos_yScale ctx) of
             Inl e \<Rightarrow> Inl e
           | Inr py \<Rightarrow> Inr (px, py)))"

record EllipseArgs =
  arg_cx :: ScalarValue
  arg_cy :: ScalarValue
  arg_rx :: ScalarValue
  arg_ry :: ScalarValue

record ellipse_position =
  pos_cx :: number
  pos_cy :: number
  pos_rx :: number
  pos_ry :: number

definition useEllipsePosition :: "PositionContext \<Rightarrow> EllipseArgs \<Rightarrow> error + ellipse_position" where
  "useEllipsePosition ctx a =
     (case resolve_coordinate (arg_cx a) (pos_plotWidth ctx) (pos_xScale ctx) of
        Inl e \<Rightarrow> Inl e
      | Inr cx \<Rightarrow>
     (case resolve_coordinate (arg_cy a) (pos_plotHeight ctx) (pos_yScale ctx) of
        Inl e \<Rightarrow> Inl e
      | Inr cy \<Rightarrow>
     (case resolve_coordinate (arg_rx a) (pos_plotWidth ctx) (pos_xScale ctx) of
        Inl e \<Rightarrow> Inl e
      | Inr rx \<Rightarrow>
     (case resolve_coordinate (arg_ry a) (pos_plotHeight ctx) (pos_yScale ctx) of
        Inl e \<Rightarrow> Inl e
      | Inr ry \<Rightarrow> Inr \<lparr>pos_cx = cx, pos_cy = cy, pos_rx = rx, pos_ry = ry\<rparr>))))"

text \<open>\<open>Arrow\<close>: both end points go through \<open>usePosition\<close>, with height and width 0.\<close>

datatype AnnotationShapeList = Shape_circle | Shape_triangle | Shape_line | Shape_none

fun shape_name :: "AnnotationShapeList \<Rightarrow> string" where
  "shape_name Shape_circle = ''circle''"
| "shape_name Shape_triangle = ''triangle''"
| "shape_name Shape_line = ''line''"
| "shape_name Shape_none = ''none''"

record ArrowProps =
  arrow_x1 :: ScalarValue
  arrow_y1 :: ScalarValue
  arrow_x2 :: ScalarValue
  arrow_y2 :: ScalarValue
  startPoint :: "AnnotationShapeList option"
  endPoint :: "AnnotationShapeList option"

record line_element =
  line_x1 :: number
  line_y1 :: number
  line_x2 :: number
  line_y2 :: number
  line_stroke :: string
  markerStart :: "string option"
  markerEnd :: "string option"

definition marker :: "AnnotationShapeList option \<Rightarrow> string option" where
  "marker p =
     (let shape = (case p of None \<Rightarrow> Shape_none | Some sh \<Rightarrow> sh)
      in if shape \<noteq> Shape_none then Some (''url(#marker-'' @ shape_name shape @ '')'') else None)"

definition Arrow :: "PositionContext \<Rightarrow> ArrowProps \<Rightarrow> error + line_element" where
  "Arrow ctx props =
     (case usePosition ctx \<lparr>arg_x = arrow_x1 props, arg_y = arrow_y1 props,
                            arg_height = Num 0, arg_width = Num 0\<rparr> of
        Inl e \<Rightarrow> Inl e
      | Inr (x1, y1) \<Rightarrow>
          (case usePosition ctx \<lparr>arg_x = arrow_x2 props, arg_y = arrow_y2 props,
                                  arg_height = Num 0, arg_width = Num 0\<rparr> of
             Inl e \<Rightarrow> Inl e
           | Inr (x2, y2) \<Rightarrow>
               Inr \<lparr>line_x1 = x1, line_y1 = y1, line_x2 = x2, line_y2 = y2,
                    line_stroke = ''black'',
                    markerStart = marker (startPoint props),
                    markerEnd = marker (endPoint props)\<rparr>))"

text \<open>\<open>Ellipse\<close>: centre and radii go through \<open>useEllipsePosition\<close>; the colour is the fill.\<close>

record AnnotationEllipseProps =
  ellipse_x :: ScalarValue
  ellipse_y :: ScalarValue
  ellipse_rx :: ScalarValue
  ellipse_ry :: ScalarValue
  ellipse_color :: "string option"
  otherProps :: css

record ellipse_element =
  ellipse_at :: ellipse_position
  ellipse_fill :: "string option"
  ellipse_other :: css

definition Ellipse :: "PositionContext \<Rightarrow> AnnotationEllipseProps \<Rightarrow> error + ellipse_element" where
  "Ellipse ctx props =
     (case useEllipsePosition ctx \<lparr>arg_cx = ellipse_x props, arg_cy = ellipse_y props,
                                   arg_rx = ellipse_rx props, arg_ry = ellipse_ry props\<rparr> of
        Inl e \<Rightarrow> Inl e
      | Inr pos \<Rightarrow>
          Inr \<lparr>ellipse_at = pos, ellipse_fill = ellipse_color props,
               ellipse_other = otherProps props\<rparr>)"

section \<open>The linear scale\<close>

record Domain =
  domain_min :: number
  domain_max :: number

record PixelRange =
  range_start :: number
  range_end :: number

text \<open>
  Modelled from the spec: the scale resolver (\<open>useAxisContext\<close> of \<open>contexts/plotContext\<close>)
  is not among the sources. Following section 4.3 of the specification, the linear scale
  is the affine interpolation from the domain to the pixel range, and a degenerate domain
  sends every value to the middle of the pixel range. A division by zero would be the
  error \<open>Inl\<close>.
\<close>

definition divide_checked :: "number \<Rightarrow> number \<Rightarrow> error + number" where
  "divide_checked a b = (if b = 0 then Inl (Error ''division by zero'') else Inr (a / b))"

definition linear_scale :: "Domain \<Rightarrow> PixelRange \<Rightarrow> number \<Rightarrow> error + number" where
  "linear_scale d r v =
     (if domain_min d = domain_max d then Inr ((range_start r + range_end r) / 2)
      else (case divide_checked (v - domain_min d) (domain_max d - domain_min d) of
              Inl e \<Rightarrow> Inl e
            | Inr t \<Rightarrow> Inr (range_start r + t * (range_end r - range_start r))))"

section \<open>Plot.tsx\<close>

text \<open>
  The rendered tree. An element has a tag, attributes and children; a provider passes a
  context to its children; a component is rendered by another module from its props; a
  slot holds children the caller declared, as \<open>splitChildren\<close> grouped them.
\<close>

datatype attr =
    A_number number
  | A_string string
  | A_style css
  | A_translate number number
  | A_ref string
  | A_undefined

datatype 'c node =
    Element string "(string \<times> attr) list" "'c node list"
  | Provider string "'c node list"
  | Component string "(string \<times> attr) list"
  | Slot "'c list"

record 'c PlotProps =
  width :: "number option"
  height :: "number option"
  colorScheme :: "string list option"
  margin :: "Margins option"
  svgStyle :: "css option"
  svgId :: "string option"
  svgClassName :: "string option"
  plotViewportStyle :: "css option"
  seriesViewportStyle :: "css option"
  children :: "'c list"

record 'c SplitChildren =
  seriesAndAnnotations :: "'c list"
  topAxis :: "'c list"
  rightAxis :: "'c list"
  bottomAxis :: "'c list"
  leftAxis :: "'c list"
  heading :: "'c list"
  legend :: "'c list"

record 'ax PlotSizesArgs =
  sizes_width :: number
  sizes_height :: number
  sizes_margin :: Margins
  sizes_axes :: "(string \<times> 'ax) list"
  topAxisHeight :: number
  rightAxisWidth :: number
  bottomAxisHeight :: number
  leftAxisWidth :: number
  sizes_headingPosition :: "string option"
  headingHeight :: number
  sizes_legendPosition :: "string option"
  sizes_legendMargin :: number
  legendWidth :: number
  legendHeight :: number

record PlotSizes =
  plotWidth :: number
  plotHeight :: number
  topOffset :: number
  leftOffset :: number
  legendOffset :: number

record bbox =
  bbox_width :: number
  bbox_height :: number

text \<open>
  What the hooks and helpers of a render give the plot. Their modules are not among the
  sources, so a render takes them as they are: the id of the plot (\<open>useId\<close>), the current
  state of the reducer (\<open>useReducer\<close>), \<open>splitChildren\<close> (which may throw), whether the plot
  is inside a plot controller (\<open>usePlotEventsPlotContext\<close>), the measured boxes
  (\<open>useBBoxObserver\<close>), \<open>usePlotSizes\<close>, and \<open>useAxisContext\<close> with the overrides of the
  controller already supplied. The effect that registers the plot with its controller
  runs after the render and is not part of the returned tree. In the tree, a provider is
  kept by its name, and the \<open>Tracking\<close> component by the props that are numbers or
  strings.
\<close>

record ('c, 'ax, 'axc) PlotEnv =
  plotId :: string
  state :: "'ax PlotState"
  splitChildren :: "'c list \<Rightarrow> error + 'c SplitChildren"
  plotEvents :: bool
  headingBbox :: bbox
  topAxisBbox :: bbox
  rightAxisBbox :: bbox
  bottomAxisBbox :: bbox
  leftAxisBbox :: bbox
  legendBbox :: bbox
  usePlotSizes :: "'ax PlotSizesArgs \<Rightarrow> PlotSizes"
  useAxisContext :: "'ax PlotState \<Rightarrow> number \<Rightarrow> number \<Rightarrow> 'axc"

record 'axc PlotContext =
  ctx_width :: number
  ctx_height :: number
  ctx_plotWidth :: number
  ctx_plotHeight :: number
  axisContext :: 'axc
  ctx_colorScaler :: ordinal

definition defaultSvgStyle :: css where
  "defaultSvgStyle = [(''overflow'', CssString ''visible''),
                      (''fontFamily'', CssString ''Arial, Helvetica, sans-serif''),
                      (''userSelect'', CssString ''none'')]"

definition or_empty :: "css option \<Rightarrow> css" where
  "or_empty st = (case st of None \<Rightarrow> [] | Some c \<Rightarrow> c)"

definition string_attr :: "string option \<Rightarrow> attr" where
  "string_attr v = (case v of None \<Rightarrow> A_undefined | Some t \<Rightarrow> A_string t)"

text \<open>
  The colour scale of a render: an ordinal scale whose range is the colour scheme and
  whose domain is the ids of the registered series, in the order of the state.
\<close>

definition Plot_colorScaler :: "string list \<Rightarrow> SeriesDescriptor list \<Rightarrow> ordinal" where
  "Plot_colorScaler scheme registered =
     ordinal_domain (map series_id registered) (ordinal_range scheme scaleOrdinal)"

definition clip_id :: "string \<Rightarrow> string" where
  "clip_id pid = ''seriesViewportClip-'' @ pid"

text \<open>The style of the \<open>svg\<close> element: the default style, overridden by \<open>svgStyle\<close>.\<close>

definition svg_style :: "'c PlotProps \<Rightarrow> css" where
  "svg_style props = spread defaultSvgStyle (or_empty (svgStyle props))"

text \<open>The tree \<open>Plot\<close> returns, for a width, a height, the sizes and the split children.\<close>

definition Plot_tree ::
  "('c, 'ax, 'axc) PlotEnv \<Rightarrow> 'c PlotProps \<Rightarrow> number \<Rightarrow> number \<Rightarrow> PlotSizes \<Rightarrow> 'c SplitChildren
     \<Rightarrow> 'c node" where
  "Plot_tree env props w h sz parts =
     Provider ''plotContext'' [Provider ''plotDispatchContext'' [Provider ''LegendProvider'' [
       Element ''svg''
         [(''xmlns'', A_string ''http://www.w3.org/2000/svg''),
          (''width'', A_number w),
          (''height'', A_number h),
          (''style'', A_style (svg_style props)),
          (''id'', string_attr (svgId props)),
          (''className'', string_attr (svgClassName props))]
         [Component ''TransparentRect''
            [(''width'', A_number w), (''height'', A_number h),
             (''style'', A_style (or_empty (plotViewportStyle props)))],
          Element ''g'' [(''transform'', A_translate (leftOffset sz) (topOffset sz))]
            ([Component ''TransparentRect''
                [(''width'', A_number (plotWidth sz)), (''height'', A_number (plotHeight sz)),
                 (''style'', A_style (or_empty (seriesViewportStyle props)))],
              Element ''clipPath'' [(''id'', A_string (clip_id (plotId env)))]
                [Element ''rect''
                   [(''width'', A_number (plotWidth sz)), (''height'', A_number (plotHeight sz))] []],
              Element ''g''
                [(''style'', A_style [(''clipPath'',
                                       CssString (''url(#'' @ clip_id (plotId env) @ '')''))])]
                [Slot (seriesAndAnnotations parts)],
              Provider ''bboxContext'' [Element ''g'' [] [Slot (topAxis parts)]],
              Provider ''bboxContext'' [Element ''g'' [] [Slot (rightAxis parts)]],
              Provider ''bboxContext'' [Element ''g'' [] [Slot (bottomAxis parts)]],
              Provider ''bboxContext'' [Element ''g'' [] [Slot (leftAxis parts)]],
              Provider ''legendOffsetContext''
                [Element ''g'' [(''ref'', A_ref ''legendBbox'')] [Slot (legend parts)]]]
             @ (if plotEvents env
                then [Component ''Tracking''
                        [(''plotId'', A_string (plotId env)),
                         (''plotWidth'', A_number (plotWidth sz)),
                         (''plotHeight'', A_number (plotHeight sz))]]
                else [])),
          Element ''g'' [(''ref'', A_ref ''headingBbox'')] [Slot (heading parts)]]]]]"

text \<open>The call of \<open>usePlotSizes\<close> in \<open>Plot\<close>, with the margin defaulting to \<open>{}\<close>.\<close>

definition Plot_sizes :: "('c, 'ax, 'axc) PlotEnv \<Rightarrow> 'c PlotProps \<Rightarrow> number \<Rightarrow> number \<Rightarrow> PlotSizes" where
  "Plot_sizes env props w h =
     usePlotSizes env
       \<lparr>sizes_width = w, sizes_height = h,
        sizes_margin = (case margin props of
                          None \<Rightarrow> \<lparr>margin_top = None, margin_right = None,
                                    margin_bottom = None, margin_left = None\<rparr>
                        | Some m \<Rightarrow> m),
        sizes_axes = axes (state env),
        topAxisHeight = bbox_height (topAxisBbox env),
        rightAxisWidth = bbox_width (rightAxisBbox env),
        bottomAxisHeight = bbox_height (bottomAxisBbox env),
        leftAxisWidth = bbox_width (leftAxisBbox env),
        sizes_headingPosition = headingPosition (state env),
        headingHeight = bbox_height (headingBbox env),
        sizes_legendPosition = legendPosition (state env),
        sizes_legendMargin = legendMargin (state env),
        legendWidth = bbox_width (legendBbox env),
        legendHeight = bbox_height (legendBbox env)\<rparr>"

text \<open>
  \<open>Plot\<close>: the children are split first; then a missing width or height throws; then the
  sizes, the axis context and the colour scale are computed and the tree is returned with
  the value of the plot context.
\<close>

definition Plot ::
  "('c, 'ax, 'axc) PlotEnv \<Rightarrow> 'c PlotProps \<Rightarrow> error + ('axc PlotContext \<times> 'c node)" where
  "Plot env props =
     (case splitChildren env (children props) of
        Inl e \<Rightarrow> Inl e
      | Inr parts \<Rightarrow>
     (case width props of
        None \<Rightarrow> Inl (Error ''width is mandatory'')
      | Some w \<Rightarrow>
     (case height props of
        None \<Rightarrow> Inl (Error ''height is mandatory'')
      | Some h \<Rightarrow>
          let sz = Plot_sizes env props w h;
              scheme = (case colorScheme props of None \<Rightarrow> schemeSet1 | Some cs \<Rightarrow> cs)
          in Inr (\<lparr>ctx_width = w, ctx_height = h,
                   ctx_plotWidth = plotWidth sz, ctx_plotHeight = plotHeight sz,
                   axisContext = useAxisContext env (state env) (plotWidth sz) (plotHeight sz),
                   ctx_colorScaler = Plot_colorScaler scheme (series (state env))\<rparr>,
                  Plot_tree env props w h sz parts))))"

text \<open>
  Reading a rendered tree: every slot with the clip paths its ancestors apply to it
  (innermost first) and the translation of its ancestors; and every clip path the tree
  defines, with its id, the translation it is defined under and its content.
\<close>

fun clip_of :: "(string \<times> attr) list \<Rightarrow> string option" where
  "clip_of attrs =
     (case map_of attrs ''style'' of
        Some (A_style st) \<Rightarrow>
          (case map_of st ''clipPath'' of Some (CssString u) \<Rightarrow> Some u | _ \<Rightarrow> None)
      | _ \<Rightarrow> None)"

fun shift_of :: "(string \<times> attr) list \<Rightarrow> number \<times> number" where
  "shift_of attrs =
     (case map_of attrs ''transform'' of Some (A_translate dx dy) \<Rightarrow> (dx, dy) | _ \<Rightarrow> (0, 0))"

fun slots :: "string list \<Rightarrow> number \<times> number \<Rightarrow> 'c node \<Rightarrow> ('c list \<times> string list \<times> number \<times> number) list" where
  "slots clips origin (Slot cs) = [(cs, clips, origin)]"
| "slots clips origin (Component name attrs) = []"
| "slots clips origin (Provider name ns) = concat (map (slots clips origin) ns)"
| "slots clips origin (Element tag attrs ns) =
     concat (map (slots (case clip_of attrs of Some u \<Rightarrow> u # clips | None \<Rightarrow> clips)
                        (fst origin + fst (shift_of attrs), snd origin + snd (shift_of attrs)))
                 ns)"

fun clip_paths :: "number \<times> number \<Rightarrow> 'c node \<Rightarrow> (attr \<times> (number \<times> number) \<times> 'c node list) list" where
  "clip_paths origin (Slot cs) = []"
| "clip_paths origin (Component name attrs) = []"
| "clip_paths origin (Provider name ns) = concat (map (clip_paths origin) ns)"
| "clip_paths origin (Element tag attrs ns) =
     (if tag = ''clipPath''
      then [(case map_of attrs ''id'' of Some a \<Rightarrow> a | None \<Rightarrow> A_undefined, origin, ns)]
      else concat (map (clip_paths (fst origin + fst (shift_of attrs),
                                    snd origin + snd (shift_of attrs))) ns))"

section \<open>A concrete render environment\<close>

text \<open>
  An environment to run \<open>Plot\<close> in: children are named by strings and split by name; the
  sizes follow steps 1 to 3 of section 4.4 of the specification, with a legend that takes
  no room and every dimension clamped at 0; there is no axis context.
\<close>

definition example_split :: "string list \<Rightarrow> error + string SplitChildren" where
  "example_split cs =
     Inr \<lparr>seriesAndAnnotations =
            filter (\<lambda>c. c \<notin> set [''top'', ''right'', ''bottom'', ''left'', ''heading'', ''legend'']) cs,
          topAxis = filter (\<lambda>c. c = ''top'') cs,
          rightAxis = filter (\<lambda>c. c = ''right'') cs,
          bottomAxis = filter (\<lambda>c. c = ''bottom'') cs,
          leftAxis = filter (\<lambda>c. c = ''left'') cs,
          heading = filter (\<lambda>c. c = ''heading'') cs,
          legend = filter (\<lambda>c. c = ''legend'') cs\<rparr>"

definition example_sizes :: "unit PlotSizesArgs \<Rightarrow> PlotSizes" where
  "example_sizes a =
     (let m = Some (sizes_margin a) in
      \<lparr>plotWidth = max 0 (sizes_width a - side_or_0 m margin_left - side_or_0 m margin_right
                           - leftAxisWidth a - rightAxisWidth a),
       plotHeight = max 0 (sizes_height a - side_or_0 m margin_top - side_or_0 m margin_bottom
                            - topAxisHeight a - bottomAxisHeight a - headingHeight a),
       topOffset = side_or_0 m margin_top + headingHeight a + topAxisHeight a,
       leftOffset = side_or_0 m margin_left + leftAxisWidth a,
       legendOffset = 0\<rparr>)"

definition example_env :: "SeriesDescriptor list \<Rightarrow> (string, unit, unit) PlotEnv" where
  "example_env registered =
     \<lparr>plotId = ''plot-1'',
      state = initialState\<lparr>series := registered\<rparr>,
      splitChildren = example_split,
      plotEvents = False,
      headingBbox = \<lparr>bbox_width = 120, bbox_height = 20\<rparr>,
      topAxisBbox = \<lparr>bbox_width = 0, bbox_height = 0\<rparr>,
      rightAxisBbox = \<lparr>bbox_width = 0, bbox_height = 0\<rparr>,
      bottomAxisBbox = \<lparr>bbox_width = 400, bbox_height = 30\<rparr>,
      leftAxisBbox = \<lparr>bbox_width = 40, bbox_height = 300\<rparr>,
      legendBbox = \<lparr>bbox_width = 0, bbox_height = 0\<rparr>,
      usePlotSizes = example_sizes,
      useAxisContext = (\<lambda>st w h. ())\<rparr>"

definition example_props :: "number option \<Rightarrow> number option \<Rightarrow> string list \<Rightarrow> string PlotProps" where
  "example_props w h cs =
     \<lparr>width = w, height = h, colorScheme = None, margin = None, svgStyle = None,
      svgId = None, svgClassName = None, plotViewportStyle = None,
      seriesViewportStyle = None, children = cs\<rparr>"


section \<open>Properties of the library functions\<close>

lemma extent_step_Some: "extent_step (Some a, Some b) v = (Some (min a v), Some (max b v))"
  by (auto simp: min_def max_def)

lemma foldl_extent_step:
  "foldl extent_step (Some a, Some b) vs =
   (Some (Min (insert a (set vs))), Some (Max (insert b (set vs))))"
proof (induction vs arbitrary: a b)
  case Nil
  show ?case by simp
next
  case (Cons v vs)
  have "Min (insert (min a v) (set vs)) = Min (insert a (insert v (set vs)))"
    by (cases "set vs = {}") (simp_all add: min.assoc)
  moreover have "Max (insert (max b v) (set vs)) = Max (insert b (insert v (set vs)))"
    by (cases "set vs = {}") (simp_all add: max.assoc)
  ultimately show ?case
    using Cons.IH [of "min a v" "max b v"]
    by (simp only: foldl_Cons extent_step_Some list.set)
qed

lemma extent_eq:
  "extent vs = (if vs = [] then (None, None) else (Some (Min (set vs)), Some (Max (set vs))))"
proof (cases vs)
  case Nil
  then show ?thesis by (simp add: extent_def)
next
  case (Cons v ws)
  have "extent (v # ws) = foldl extent_step (Some v, Some v) ws"
    by (simp add: extent_def)
  then show ?thesis using Cons by (simp add: foldl_extent_step)
qed





lemma find_upsert: "find (\<lambda>s. series_id s = series_id d) (upsert d ss) = Some d"
  by (induction ss) auto

lemma LineSeries_descriptor_eq:
  "LineSeries_descriptor sid props =
     \<lparr>series_id = sid,
      xMin = fst (extent (series_x (props_data props))),
      xMax = snd (extent (series_x (props_data props))),
      yMin = fst (extent (series_y (props_data props))),
      yMax = snd (extent (series_y (props_data props))),
      series_label = props_label props\<rparr>"
  by (simp add: LineSeries_descriptor_def split: prod.splits)

lemma series_id_LineSeries_descriptor: "series_id (LineSeries_descriptor sid props) = sid"
  by (simp add: LineSeries_descriptor_eq)

section \<open>The claims\<close>




text \<open>
  C2, as the code has it: when the two data arrays differ in length no exception is
  raised; the path is \<open>null\<close>, and with both scales present the series still renders a
  \<open>path\<close> element, whose \<open>d\<close> attribute is \<open>null\<close>.
\<close>

theorem LineSeriesRender_mismatch_no_error:
  assumes "length (series_x (data props)) \<noteq> length (series_y (data props))"
  shows "LineSeriesRender_path ctx (data props) = None
       \<and> \<not> isl (LineSeriesRender ctx props)
       \<and> (xScale ctx \<noteq> None \<and> yScale ctx \<noteq> None \<longrightarrow>
            map_sum id (map_option path_d \<circ> fst) (LineSeriesRender ctx props) = Inr (Some None))"
  using assms
  by (auto simp: LineSeriesRender_def LineSeriesRender_path_def Let_def
           split: option.splits prod.splits)

theorem LineSeriesRender_mismatch_no_error_witness:
  "length (series_x (data \<lparr>data = \<lparr>series_x = [1, 2], series_y = [1]\<rparr>, lineStyle = None,
                            label = ''a''\<rparr>))
     \<noteq> length (series_y (data \<lparr>data = \<lparr>series_x = [1, 2], series_y = [1]\<rparr>, lineStyle = None,
                                 label = ''a''\<rparr>))
   \<and> \<not> isl (LineSeriesRender
              \<lparr>xScale = Some (\<lambda>v. v), yScale = Some (\<lambda>v. 2 * v),
               colorScaler = Plot_colorScaler schemeSet1 []\<rparr>
              \<lparr>data = \<lparr>series_x = [1, 2], series_y = [1]\<rparr>, lineStyle = None, label = ''a''\<rparr>)"
  using LineSeriesRender_mismatch_no_error
          [of "\<lparr>data = \<lparr>series_x = [1, 2], series_y = [1]\<rparr>, lineStyle = None, label = ''a''\<rparr>"
              "\<lparr>xScale = Some (\<lambda>v. v), yScale = Some (\<lambda>v. 2 * v),
                colorScaler = Plot_colorScaler schemeSet1 []\<rparr>"]
  by simp

text \<open>
  C2, the claim as stated fails: for \<open>x = [1, 2]\<close> and \<open>y = [1]\<close> the render returns a
  \<open>path\<close> element with the default style and no path data, not an error.
\<close>

theorem LineSeriesRender_mismatch_counterexample:
  "LineSeriesRender
     \<lparr>xScale = Some (\<lambda>v. v), yScale = Some (\<lambda>v. 2 * v),
      colorScaler = \<lparr>ord_domain = [''series-1''], ord_range = schemeSet1\<rparr>\<rparr>
     \<lparr>data = \<lparr>series_x = [1, 2], series_y = [1]\<rparr>, lineStyle = None, label = ''a''\<rparr>
   = Inr (Some \<lparr>path_style = [(''stroke'', CssString ''#377eb8''), (''strokeWidth'', CssNumber 2)],
                path_d = None\<rparr>,
          \<lparr>ord_domain = [''series-1'', ''a''], ord_range = schemeSet1\<rparr>)"
  by (simp add: LineSeriesRender_def LineSeriesRender_path_def ordinal_call_def spread_def
      schemeSet1_def)





text \<open>
  C4: the effect of a line series dispatches \<open>newData\<close> with a descriptor whose ends are
  the least and the greatest value of \<open>data.x\<close> and of \<open>data.y\<close> (\<open>undefined\<close> for an empty
  array), and its cleanup dispatches \<open>removeData\<close> with the same id. In the state, the
  descriptor is the one found under the id after the mount and after an update with new
  props, and no descriptor has the id after the unmount.
\<close>

theorem LineSeries_registers_extents:
  "LineSeries_descriptor sid props =
     \<lparr>series_id = sid,
      xMin = (if series_x (props_data props) = [] then None
              else Some (Min (set (series_x (props_data props))))),
      xMax = (if series_x (props_data props) = [] then None
              else Some (Max (set (series_x (props_data props))))),
      yMin = (if series_y (props_data props) = [] then None
              else Some (Min (set (series_y (props_data props))))),
      yMax = (if series_y (props_data props) = [] then None
              else Some (Max (set (series_y (props_data props))))),
      series_label = props_label props\<rparr>
   \<and> LineSeries_effect sid props = (NewData (LineSeries_descriptor sid props), RemoveData sid)
   \<and> find (\<lambda>s. series_id s = sid) (series (LineSeries_mount sid props st))
       = Some (LineSeries_descriptor sid props)
   \<and> find (\<lambda>s. series_id s = sid) (series (LineSeries_update sid old props st))
       = Some (LineSeries_descriptor sid props)
   \<and> sid \<notin> series_id ` set (series (LineSeries_unmount sid props st))"
proof -
  have found: "find (\<lambda>s. series_id s = sid) (upsert (LineSeries_descriptor sid props) ss)
                 = Some (LineSeries_descriptor sid props)" for ss
    using find_upsert [of "LineSeries_descriptor sid props" ss]
    by (simp add: series_id_LineSeries_descriptor)
  have a: "LineSeries_descriptor sid props =
     \<lparr>series_id = sid,
      xMin = (if series_x (props_data props) = [] then None
              else Some (Min (set (series_x (props_data props))))),
      xMax = (if series_x (props_data props) = [] then None
              else Some (Max (set (series_x (props_data props))))),
      yMin = (if series_y (props_data props) = [] then None
              else Some (Min (set (series_y (props_data props))))),
      yMax = (if series_y (props_data props) = [] then None
              else Some (Max (set (series_y (props_data props))))),
      series_label = props_label props\<rparr>"
    by (simp add: LineSeries_descriptor_eq extent_eq)
  have b: "LineSeries_effect sid props = (NewData (LineSeries_descriptor sid props), RemoveData sid)"
    by (simp add: LineSeries_effect_def)
  have c: "find (\<lambda>s. series_id s = sid) (series (LineSeries_mount sid props st))
             = Some (LineSeries_descriptor sid props)"
    by (simp add: LineSeries_mount_def b found)
  have d: "find (\<lambda>s. series_id s = sid) (series (LineSeries_update sid old props st))
             = Some (LineSeries_descriptor sid props)"
    by (simp add: LineSeries_update_def LineSeries_mount_def b found)
  have e: "sid \<notin> series_id ` set (series (LineSeries_unmount sid props st))"
    by (auto simp: LineSeries_unmount_def b)
  from a b c d e show ?thesis
    by (intro conjI)
qed

theorem LineSeries_registers_extents_witness:
  "LineSeries_descriptor ''series-1''
     \<lparr>props_data = \<lparr>series_x = [3, 1, 2], series_y = []\<rparr>, props_label = ''a'',
      props_lineStyle = None\<rparr>
     = \<lparr>series_id = ''series-1'', xMin = Some 1, xMax = Some 3, yMin = None, yMax = None,
        series_label = ''a''\<rparr>
   \<and> series (LineSeries_mount ''series-1''
               \<lparr>props_data = \<lparr>series_x = [3, 1, 2], series_y = []\<rparr>, props_label = ''a'',
                props_lineStyle = None\<rparr>
               (initialState :: unit PlotState))
     = [\<lparr>series_id = ''series-1'', xMin = Some 1, xMax = Some 3, yMin = None, yMax = None,
         series_label = ''a''\<rparr>]
   \<and> series (LineSeries_unmount ''series-1''
               \<lparr>props_data = \<lparr>series_x = [3, 1, 2], series_y = []\<rparr>, props_label = ''a'',
                props_lineStyle = None\<rparr>
               (LineSeries_mount ''series-1''
                  \<lparr>props_data = \<lparr>series_x = [3, 1, 2], series_y = []\<rparr>, props_label = ''a'',
                   props_lineStyle = None\<rparr>
                  (initialState :: unit PlotState)))
     = []"
  using LineSeries_registers_extents
          [of "''series-1''"
              "\<lparr>props_data = \<lparr>series_x = [3, 1, 2], series_y = []\<rparr>, props_label = ''a'',
                props_lineStyle = None\<rparr>"
              "initialState :: unit PlotState"]
  by (simp add: LineSeries_mount_def LineSeries_unmount_def initialState_def)

text \<open>
  C5: a string made of a number and \<open>%\<close> resolves to that percentage of the dimension, with
  or without a scale, and a bare number resolves to itself.
\<close>

theorem resolve_percentage_and_number:
  assumes "parse_number s = Some p"
  shows "resolve_coordinate (Str (s @ ''%'')) dimension scale = Inr (p / 100 * dimension)
       \<and> resolve_coordinate (Num n) dimension scale = Inr n"
  using assms by (simp add: resolve_coordinate_def)

theorem resolve_percentage_and_number_witness:
  "parse_number ''50'' = Some 50
   \<and> resolve_coordinate (Str ''50%'') 400 None = Inr 200
   \<and> resolve_coordinate (Str ''50%'') 400 (Some (\<lambda>v. 3 * v + 7)) = Inr 200
   \<and> resolve_coordinate (Num 120) 400 None = Inr 120
   \<and> resolve_coordinate (Num 120) 400 (Some (\<lambda>v. 3 * v + 7)) = Inr 120
   \<and> Arrow \<lparr>pos_xScale = Some (\<lambda>v. 3 * v + 7), pos_yScale = None,
             pos_plotWidth = 400, pos_plotHeight = 300\<rparr>
            \<lparr>arrow_x1 = Str ''50%'', arrow_y1 = Num 120, arrow_x2 = Num 120,
             arrow_y2 = Str ''50%'', startPoint = None, endPoint = Some Shape_circle\<rparr>
       = Inr \<lparr>line_x1 = 200, line_y1 = 120, line_x2 = 120, line_y2 = 150,
              line_stroke = ''black'', markerStart = None,
              markerEnd = Some ''url(#marker-circle)''\<rparr>
   \<and> Ellipse \<lparr>pos_xScale = None, pos_yScale = Some (\<lambda>v. 3 * v + 7),
               pos_plotWidth = 400, pos_plotHeight = 300\<rparr>
              \<lparr>ellipse_x = Str ''50%'', ellipse_y = Num 120, ellipse_rx = Num 120,
               ellipse_ry = Str ''50%'', ellipse_color = Some ''red'', otherProps = []\<rparr>
       = Inr \<lparr>ellipse_at = \<lparr>pos_cx = 200, pos_cy = 120, pos_rx = 120, pos_ry = 150\<rparr>,
              ellipse_fill = Some ''red'', ellipse_other = []\<rparr>"
proof -
  have h: "parse_number ''50'' = Some 50"
    by (simp add: parse_number_def parse_unsigned_def is_digit_def digits_value_def)
  have r: "resolve_coordinate (Str ''50%'') d sc = Inr (50 / 100 * d)"
          "resolve_coordinate (Num 120) d sc = Inr 120" for d sc
    using resolve_percentage_and_number [OF h, of d sc 120] by simp_all
  show ?thesis
    using h by (simp add: r Arrow_def Ellipse_def usePosition_def useEllipsePosition_def
        marker_def)
qed

text \<open>
  C6: on a domain whose two ends are equal the linear scale returns the middle of the pixel
  range for every value, and never the division error.
\<close>

theorem linear_scale_degenerate:
  assumes "domain_min d = domain_max d"
  shows "linear_scale d r v = Inr ((range_start r + range_end r) / 2)"
  using assms by (simp add: linear_scale_def)

theorem linear_scale_degenerate_witness:
  "domain_min \<lparr>domain_min = 3, domain_max = 3\<rparr> = domain_max \<lparr>domain_min = 3, domain_max = 3\<rparr>
   \<and> linear_scale \<lparr>domain_min = 3, domain_max = 3\<rparr> \<lparr>range_start = 0, range_end = 500\<rparr> 10
       = Inr 250"
  using linear_scale_degenerate
          [of "\<lparr>domain_min = 3, domain_max = 3\<rparr>" "\<lparr>range_start = 0, range_end = 500\<rparr>" 10]
  by simp

text \<open>
  C7: when the left margin is below the font size plus 20, the axis writes one warning to
  the console and still returns its elements: the group for the ticks, at the bottom
  margin, followed by the label when there is one.
\<close>

theorem XAxis_warns_and_renders:
  assumes "side_or_0 (axis_margin ctx) margin_left
           < (case fontSize props of None \<Rightarrow> 16 | Some f \<Rightarrow> f) + 20"
  shows "console (XAxis ctx props)
           = [Warn_margin_left ((case fontSize props of None \<Rightarrow> 16 | Some f \<Rightarrow> f) + 20)]
       \<and> rendered (XAxis ctx props)
           = Axis_group 0 (axis_height ctx - side_or_0 (axis_margin ctx) margin_bottom)
             # (case axis_label props of
                  None \<Rightarrow> []
                | Some l \<Rightarrow>
                    if l = [] then []
                    else [Axis_text (axis_width ctx / 2)
                            (axis_height ctx - side_or_0 (axis_margin ctx) margin_bottom + 20
                             + (case fontSize props of None \<Rightarrow> 16 | Some f \<Rightarrow> f))
                            (case fontSize props of None \<Rightarrow> 16 | Some f \<Rightarrow> f) l])"
  using assms by (simp add: XAxis_def Let_def)

theorem XAxis_warns_and_renders_witness:
  "side_or_0 (axis_margin \<lparr>axis_xScale = None,
                           axis_margin = Some \<lparr>margin_top = None, margin_right = None,
                                               margin_bottom = Some 40, margin_left = Some 10\<rparr>,
                           axis_height = 300, axis_width = 500\<rparr>) margin_left
     < (case fontSize \<lparr>axis_label = Some ''time'', fontSize = None, showGridLines = None\<rparr> of
          None \<Rightarrow> 16 | Some f \<Rightarrow> f) + 20
   \<and> console (XAxis \<lparr>axis_xScale = None,
                      axis_margin = Some \<lparr>margin_top = None, margin_right = None,
                                          margin_bottom = Some 40, margin_left = Some 10\<rparr>,
                      axis_height = 300, axis_width = 500\<rparr>
                     \<lparr>axis_label = Some ''time'', fontSize = None, showGridLines = None\<rparr>)
       = [Warn_margin_left 36]
   \<and> rendered (XAxis \<lparr>axis_xScale = None,
                      axis_margin = Some \<lparr>margin_top = None, margin_right = None,
                                          margin_bottom = Some 40, margin_left = Some 10\<rparr>,
                      axis_height = 300, axis_width = 500\<rparr>
                     \<lparr>axis_label = Some ''time'', fontSize = None, showGridLines = None\<rparr>)
       = [Axis_group 0 260, Axis_text 250 296 16 ''time'']"
proof -
  have h: "side_or_0 (axis_margin \<lparr>axis_xScale = None,
                           axis_margin = Some \<lparr>margin_top = None, margin_right = None,
                                               margin_bottom = Some 40, margin_left = Some 10\<rparr>,
                           axis_height = 300, axis_width = 500\<rparr>) margin_left
     < (case fontSize \<lparr>axis_label = Some ''time'', fontSize = None, showGridLines = None\<rparr> of
          None \<Rightarrow> 16 | Some f \<Rightarrow> f) + 20"
    by (simp add: side_or_0_def)
  show ?thesis
    using h XAxis_warns_and_renders [OF h] by (simp add: side_or_0_def)
qed

text \<open>
  C9: when the x scale or the y scale is \<open>null\<close>, the path is \<open>null\<close> and the series
  renders nothing, without an exception and without touching the colour scale.
\<close>

theorem LineSeriesRender_null_scale:
  assumes "xScale ctx = None \<or> yScale ctx = None"
  shows "LineSeriesRender ctx props = Inr (None, colorScaler ctx)
       \<and> LineSeriesRender_path ctx (data props) = None"
  using assms
  by (auto simp: LineSeriesRender_def LineSeriesRender_path_def split: option.splits)

theorem LineSeriesRender_null_scale_witness:
  "(xScale \<lparr>xScale = None, yScale = Some (\<lambda>v. 2 * v),
            colorScaler = \<lparr>ord_domain = [], ord_range = schemeSet1\<rparr>\<rparr> = None
    \<or> yScale \<lparr>xScale = None, yScale = Some (\<lambda>v. 2 * v),
              colorScaler = \<lparr>ord_domain = [], ord_range = schemeSet1\<rparr>\<rparr> = None)
   \<and> LineSeriesRender
       \<lparr>xScale = None, yScale = Some (\<lambda>v. 2 * v),
        colorScaler = \<lparr>ord_domain = [], ord_range = schemeSet1\<rparr>\<rparr>
       \<lparr>data = \<lparr>series_x = [0, 10], series_y = [0, 5]\<rparr>, lineStyle = None, label = ''a''\<rparr>
     = Inr (None, \<lparr>ord_domain = [], ord_range = schemeSet1\<rparr>)"
  using LineSeriesRender_null_scale
          [of "\<lparr>xScale = None, yScale = Some (\<lambda>v. 2 * v),
                colorScaler = \<lparr>ord_domain = [], ord_range = schemeSet1\<rparr>\<rparr>"
              "\<lparr>data = \<lparr>series_x = [0, 10], series_y = [0, 5]\<rparr>, lineStyle = None,
                label = ''a''\<rparr>"]
  by simp

text \<open>
  C10: in the tree of every render that returns, the series and annotations are the one
  slot inside the group clipped by \<open>seriesViewportClip-<plot id>\<close>, in the group translated
  to the plot origin; that clip path is defined once, in the same translated group, as a
  rectangle of the plot width by the plot height; the four axes and the legend stand in
  the translated group and the heading outside it, none of them inside the clipped
  group. (The only other clip a slot can be under is one the caller sets on the whole
  \<open>svg\<close> through \<open>svgStyle\<close>.)
\<close>

theorem Plot_clips_series_only:
  assumes "splitChildren env (children props) = Inr parts"
    and "width props = Some w" and "height props = Some h"
  shows "\<exists>ctx tree.
           Plot env props = Inr (ctx, tree)
         \<and> ctx_plotWidth ctx = plotWidth (Plot_sizes env props w h)
         \<and> ctx_plotHeight ctx = plotHeight (Plot_sizes env props w h)
         \<and> slots [] (0, 0) tree =
             [(seriesAndAnnotations parts,
               (''url(#'' @ clip_id (plotId env) @ '')'')
               # (case clip_of [(''style'', A_style (svg_style props))] of
                    None \<Rightarrow> [] | Some u \<Rightarrow> [u]),
               leftOffset (Plot_sizes env props w h), topOffset (Plot_sizes env props w h)),
              (topAxis parts,
               (case clip_of [(''style'', A_style (svg_style props))] of
                  None \<Rightarrow> [] | Some u \<Rightarrow> [u]),
               leftOffset (Plot_sizes env props w h), topOffset (Plot_sizes env props w h)),
              (rightAxis parts,
               (case clip_of [(''style'', A_style (svg_style props))] of
                  None \<Rightarrow> [] | Some u \<Rightarrow> [u]),
               leftOffset (Plot_sizes env props w h), topOffset (Plot_sizes env props w h)),
              (bottomAxis parts,
               (case clip_of [(''style'', A_style (svg_style props))] of
                  None \<Rightarrow> [] | Some u \<Rightarrow> [u]),
               leftOffset (Plot_sizes env props w h), topOffset (Plot_sizes env props w h)),
              (leftAxis parts,
               (case clip_of [(''style'', A_style (svg_style props))] of
                  None \<Rightarrow> [] | Some u \<Rightarrow> [u]),
               leftOffset (Plot_sizes env props w h), topOffset (Plot_sizes env props w h)),
              (legend parts,
               (case clip_of [(''style'', A_style (svg_style props))] of
                  None \<Rightarrow> [] | Some u \<Rightarrow> [u]),
               leftOffset (Plot_sizes env props w h), topOffset (Plot_sizes env props w h)),
              (heading parts,
               (case clip_of [(''style'', A_style (svg_style props))] of
                  None \<Rightarrow> [] | Some u \<Rightarrow> [u]),
               0, 0)]
         \<and> clip_paths (0, 0) tree =
             [(A_string (clip_id (plotId env)),
               (leftOffset (Plot_sizes env props w h), topOffset (Plot_sizes env props w h)),
               [Element ''rect''
                  [(''width'', A_number (plotWidth (Plot_sizes env props w h))),
                   (''height'', A_number (plotHeight (Plot_sizes env props w h)))] []])]"
proof -
  define sz where "sz = Plot_sizes env props w h"
  define outer where
    "outer = (case clip_of [(''style'', A_style (svg_style props))] of
                None \<Rightarrow> [] | Some u \<Rightarrow> [u])"
  have tree: "map_sum id snd (Plot env props) = Inr (Plot_tree env props w h sz parts)"
    using assms by (simp add: Plot_def Let_def sz_def)
  have ctx: "map_sum id (ctx_plotWidth \<circ> fst) (Plot env props) = Inr (plotWidth sz)"
            "map_sum id (ctx_plotHeight \<circ> fst) (Plot env props) = Inr (plotHeight sz)"
    using assms by (simp_all add: Plot_def Let_def sz_def)
  have s: "slots [] (0, 0) (Plot_tree env props w h sz parts) =
             [(seriesAndAnnotations parts, (''url(#'' @ clip_id (plotId env) @ '')'') # outer,
               leftOffset sz, topOffset sz),
              (topAxis parts, outer, leftOffset sz, topOffset sz),
              (rightAxis parts, outer, leftOffset sz, topOffset sz),
              (bottomAxis parts, outer, leftOffset sz, topOffset sz),
              (leftAxis parts, outer, leftOffset sz, topOffset sz),
              (legend parts, outer, leftOffset sz, topOffset sz),
              (heading parts, outer, 0, 0)]"
    by (simp add: Plot_tree_def outer_def split: option.splits attr.splits css_value.splits)
  have c: "clip_paths (0, 0) (Plot_tree env props w h sz parts) =
             [(A_string (clip_id (plotId env)), (leftOffset sz, topOffset sz),
               [Element ''rect'' [(''width'', A_number (plotWidth sz)),
                                  (''height'', A_number (plotHeight sz))] []])]"
    by (simp add: Plot_tree_def)
  from tree ctx obtain c0 where "Plot env props = Inr (c0, Plot_tree env props w h sz parts)"
    "ctx_plotWidth c0 = plotWidth sz" "ctx_plotHeight c0 = plotHeight sz"
    by (cases "Plot env props") auto
  with s c show ?thesis
    unfolding sz_def outer_def by blast
qed

theorem Plot_clips_series_only_witness:
  "splitChildren (example_env [])
       (children (example_props (Some 500) (Some 300) [''line'', ''bottom'', ''heading'']))
     = Inr \<lparr>seriesAndAnnotations = [''line''], topAxis = [], rightAxis = [],
            bottomAxis = [''bottom''], leftAxis = [], heading = [''heading''], legend = []\<rparr>
   \<and> width (example_props (Some 500) (Some 300) [''line'', ''bottom'', ''heading'']) = Some 500
   \<and> height (example_props (Some 500) (Some 300) [''line'', ''bottom'', ''heading'']) = Some 300
   \<and> (\<exists>ctx tree.
        Plot (example_env []) (example_props (Some 500) (Some 300) [''line'', ''bottom'', ''heading''])
          = Inr (ctx, tree)
        \<and> slots [] (0, 0) tree =
            [([''line''], [''url(#seriesViewportClip-plot-1)''], 40, 20),
             ([], [], 40, 20), ([], [], 40, 20), ([''bottom''], [], 40, 20),
             ([], [], 40, 20), ([], [], 40, 20), ([''heading''], [], 0, 0)]
        \<and> clip_paths (0, 0) tree =
            [(A_string ''seriesViewportClip-plot-1'', (40, 20),
              [Element ''rect'' [(''width'', A_number 460), (''height'', A_number 250)] []])])"
proof -
  let ?env = "example_env [] :: (string, unit, unit) PlotEnv"
  let ?props = "example_props (Some 500) (Some 300) [''line'', ''bottom'', ''heading'']"
  let ?parts = "\<lparr>seriesAndAnnotations = [''line''], topAxis = [], rightAxis = [],
            bottomAxis = [''bottom''], leftAxis = [], heading = [''heading''], legend = []\<rparr>"
  have h1: "splitChildren ?env (children ?props) = Inr ?parts"
    by (simp add: example_env_def example_props_def example_split_def)
  have h2: "width ?props = Some 500" and h3: "height ?props = Some 300"
    by (simp_all add: example_props_def)
  have sz: "Plot_sizes ?env ?props 500 300
              = \<lparr>plotWidth = 460, plotHeight = 250, topOffset = 20, leftOffset = 40,
                 legendOffset = 0\<rparr>"
    by (simp add: Plot_sizes_def example_env_def example_props_def example_sizes_def
        side_or_0_def initialState_def)
  have pid: "clip_id (plotId ?env) = ''seriesViewportClip-plot-1''"
    by (simp add: clip_id_def example_env_def)
  have outer: "clip_of [(''style'', A_style (svg_style ?props))] = None"
    by (simp add: svg_style_def example_props_def or_empty_def spread_def defaultSvgStyle_def)
  from Plot_clips_series_only [OF h1 h2 h3] obtain ctx tree where
    "Plot ?env ?props = Inr (ctx, tree)"
    "slots [] (0, 0) tree =
            [([''line''], [''url(#seriesViewportClip-plot-1)''], 40, 20),
             ([], [], 40, 20), ([], [], 40, 20), ([''bottom''], [], 40, 20),
             ([], [], 40, 20), ([], [], 40, 20), ([''heading''], [], 0, 0)]"
    "clip_paths (0, 0) tree =
            [(A_string ''seriesViewportClip-plot-1'', (40, 20),
              [Element ''rect'' [(''width'', A_number 460), (''height'', A_number 250)] []])]"
    unfolding sz pid outer by auto
  with h1 h2 h3 show ?thesis
    by blast
qed


end
